theory Spec2Isabelle
  imports Main "HOL-Library.Word"
begin

unbundle bit_operations_syntax

section \<open>C types of ubigen.c\<close>

type_synonym c_int = "32 word"
type_synonym c_ull = "64 word"
type_synonym off_t = "64 word"
type_synonym byte = "8 word"

text \<open>
  A \<^verbatim>\<open>FILE *\<close> is either \<^verbatim>\<open>stdout\<close> or a stream that \<^verbatim>\<open>fopen\<close> returned for a
  path and a mode; \<^verbatim>\<open>NULL\<close> is \<open>None\<close> of \<open>FILE option\<close>.
\<close>

datatype FILE = Stdout | Stream string string

definition EXIT_SUCCESS :: c_int where
  "EXIT_SUCCESS = 0"

text \<open>
  Volume types of \<^verbatim>\<open><mtd/ubi-header.h>\<close>, which ubigen.c includes:
  \<^verbatim>\<open>UBI_VID_DYNAMIC = 1\<close>, \<^verbatim>\<open>UBI_VID_STATIC = 2\<close>.
\<close>

definition UBI_VID_DYNAMIC :: c_int where
  "UBI_VID_DYNAMIC = 1"

definition UBI_VID_STATIC :: c_int where
  "UBI_VID_STATIC = 2"

section \<open>libc: strtoull with base 0\<close>

text \<open>
  \<^verbatim>\<open>strtoull(nptr, &endp, 0)\<close> as ISO C 7.22.1.4 describes it: white space is skipped,
  an optional sign is read, the base is 16 after \<^verbatim>\<open>0x\<close> followed by a hexadecimal digit,
  8 after \<^verbatim>\<open>0\<close>, and 10 otherwise; the longest run of digits of that base is converted.
  A value above \<^verbatim>\<open>ULLONG_MAX\<close> gives \<^verbatim>\<open>ULLONG_MAX\<close>; a minus sign negates the value in
  the unsigned type. The model returns the value and the number of characters
  consumed, so that \<^verbatim>\<open>endp\<close> is the argument with that many characters dropped and
  \<^verbatim>\<open>endp == nptr\<close> is "nothing consumed".
\<close>

definition isspace :: "char \<Rightarrow> bool" where
  "isspace c = (of_char c = (32::nat) \<or> (9 \<le> (of_char c :: nat) \<and> (of_char c :: nat) \<le> 13))"

definition digit_val :: "char \<Rightarrow> nat option" where
  "digit_val c =
     (let n = (of_char c :: nat) in
      if 48 \<le> n \<and> n \<le> 57 then Some (n - 48)
      else if 97 \<le> n \<and> n \<le> 122 then Some (n - 87)
      else if 65 \<le> n \<and> n \<le> 90 then Some (n - 55)
      else None)"

definition is_digit_of :: "nat \<Rightarrow> char \<Rightarrow> bool" where
  "is_digit_of base c = (case digit_val c of None \<Rightarrow> False | Some d \<Rightarrow> d < base)"

definition digits_value :: "nat \<Rightarrow> string \<Rightarrow> nat" where
  "digits_value base ds =
     foldl (\<lambda>acc c. acc * base + (case digit_val c of None \<Rightarrow> 0 | Some d \<Rightarrow> d)) 0 ds"

definition ULLONG_MAX :: nat where
  "ULLONG_MAX = 2 ^ 64 - 1"

definition strtoull :: "string \<Rightarrow> c_ull \<times> nat" where
  "strtoull nptr =
     (let ws = length (takeWhile isspace nptr);
          s1 = drop ws nptr;
          neg = (case s1 of c # _ \<Rightarrow> c = CHR ''-'' | [] \<Rightarrow> False);
          sg = (case s1 of c # _ \<Rightarrow> if c = CHR ''-'' \<or> c = CHR ''+'' then 1 else 0 | [] \<Rightarrow> 0);
          s2 = drop sg s1;
          hex = (case s2 of
                   z # x # h # _ \<Rightarrow>
                     z = CHR ''0'' \<and> (x = CHR ''x'' \<or> x = CHR ''X'') \<and> is_digit_of 16 h
                 | _ \<Rightarrow> False);
          base = (if hex then 16
                  else case s2 of z # _ \<Rightarrow> if z = CHR ''0'' then 8 else 10 | [] \<Rightarrow> 10);
          pre = (if hex then 2 else 0);
          ds = takeWhile (is_digit_of base) (drop pre s2);
          v = digits_value base ds
      in if ds = [] then (0, 0)
         else (if ULLONG_MAX < v then of_nat ULLONG_MAX
               else if neg then - of_nat v else of_nat v,
               ws + sg + pre + length ds))"

text \<open>
  \<^verbatim>\<open>strtoul\<close> on an LP64 target, where \<^verbatim>\<open>unsigned long\<close> has 64 bits as
  \<^verbatim>\<open>unsigned long long\<close> has.
\<close>

definition strtoul :: "string \<Rightarrow> c_ull \<times> nat" where
  "strtoul nptr = strtoull nptr"

text \<open>
  Assigning an \<^verbatim>\<open>unsigned long long\<close> to an \<^verbatim>\<open>int\<close> field keeps the low 32 bits
  (the conversion every target of this program implements); the field is then read
  as two's complement by \<open>sint\<close>.
\<close>

definition to_int :: "c_ull \<Rightarrow> c_int" where
  "to_int v = ucast v"

section \<open>The option tables of ubigen.c\<close>

record args =
  fp_in :: "FILE option"
  fp_out :: "FILE option"
  peb_size :: c_int
  id_a :: c_int
  min_io_size :: c_int
  type_a :: c_int
  sub_page_size :: c_int
  alignment :: c_int
  vid_hdr_offs :: c_int
  ec :: c_int
  ubi_ver :: c_int

text \<open>The initializer of the global \<^verbatim>\<open>struct args args\<close> (fields \<^verbatim>\<open>id\<close> and \<^verbatim>\<open>type\<close>
  are \<open>id_a\<close> and \<open>type_a\<close> here).\<close>

definition args_init :: args where
  "args_init =
     \<lparr> fp_in = None, fp_out = None, peb_size = - 1, id_a = - 1, min_io_size = - 1,
       type_a = UBI_VID_DYNAMIC, sub_page_size = - 1, alignment = 1, vid_hdr_offs = 0,
       ec = 0, ubi_ver = 0 \<rparr>"

text \<open>The help text \<^verbatim>\<open>optionsstr\<close>, one list element per line of the C string.\<close>

definition optionsstr :: "string list" where
  "optionsstr =
   [''-i, --infile=<filename>       the input file'',
    ''-o, --outfile=<filename>      the output file (default is stdout)'',
    ''-b, --peb-size=<bytes>        size of the physical eraseblock of the flash this'',
    ''                              UBI image is created for in bytes, kilobytes (KiB),'',
    ''                              or megabytes (MiB) (mandatory parameter)'',
    ''-I, --vol-id=<num>            volume ID (mandatory parameter)'',
    ''-m, --min-io-size=<bytes>     minimum input/output unit size of the flash in bytes'',
    ''                              kilobytes (KiB), or megabytes (MiB) (mandatory'',
    ''                              parameter); e.g. this is NAND page size in case of'',
    ''                              NAND flash'',
    ''-t, --type=<static|dynamic>   volume type: dynamic or static (default is dynamic)'',
    ''-s, --sub-page-size=<bytes>   minimum input/output unit used for UBI headers, e.g.'',
    ''                              sub-page size in case of NAND flash (equivalent to'',
    ''                              the minimum input/output unit size by default)'',
    ''-a, --alignment=<bytes>       volume alignment in bytes, kilobytes (KiB), or'',
    ''                              megabytes (MiB) (default is 1)'',
    ''-O, --vid-hdr-offset=<num>    offset if the VID header from start of the physical'',
    ''                              eraseblock (default is the second minimum I/O unit'',
    ''                              or sub-page, if it was specified)'',
    ''-e, --erase-counter=<num>     the erase counter value to put to EC headers'',
    ''                              (default is 0)'',
    ''-x, --ubi-ver=<num>            UBI version number to put to EC headers'',
    ''                              (default is 1)'',
    ''-h, --help                    print help message'',
    ''-V, --version                 print program version'']"

text \<open>The third argument of \<^verbatim>\<open>getopt_long\<close> and the table \<^verbatim>\<open>long_options\<close>
  (every entry has \<^verbatim>\<open>.flag = NULL\<close>; the terminating entry is the end of the list).\<close>

definition optstring :: string where
  "optstring = ''i:o:b:I:m:t:s:a:O:e:x:hV''"

record long_option =
  name :: string
  has_arg :: nat
  val :: char

definition long_options :: "long_option list" where
  "long_options =
   [\<lparr> name = ''infile'',         has_arg = 1, val = CHR ''i'' \<rparr>,
    \<lparr> name = ''outfile'',        has_arg = 1, val = CHR ''o'' \<rparr>,
    \<lparr> name = ''peb-size'',       has_arg = 1, val = CHR ''b'' \<rparr>,
    \<lparr> name = ''vol-id'',         has_arg = 1, val = CHR ''I'' \<rparr>,
    \<lparr> name = ''min-io-size'',    has_arg = 1, val = CHR ''m'' \<rparr>,
    \<lparr> name = ''type'',           has_arg = 1, val = CHR ''t'' \<rparr>,
    \<lparr> name = ''sub-page-size'',  has_arg = 1, val = CHR ''s'' \<rparr>,
    \<lparr> name = ''alignment'',      has_arg = 1, val = CHR ''a'' \<rparr>,
    \<lparr> name = ''vid-hdr-offset'', has_arg = 1, val = CHR ''O'' \<rparr>,
    \<lparr> name = ''erase-counter'',  has_arg = 1, val = CHR ''e'' \<rparr>,
    \<lparr> name = ''ubi-ver'',        has_arg = 1, val = CHR ''x'' \<rparr>,
    \<lparr> name = ''help'',           has_arg = 0, val = CHR ''h'' \<rparr>,
    \<lparr> name = ''version'',        has_arg = 0, val = CHR ''V'' \<rparr>]"

text \<open>
  One option of a command line, as \<^verbatim>\<open>getopt_long\<close> sees it: \<^verbatim>\<open>-c\<close> or \<^verbatim>\<open>-c arg\<close>, and
  \<^verbatim>\<open>--name\<close> or \<^verbatim>\<open>--name=arg\<close>. \<open>getopt_long\<close> gives what one call returns for it: the
  key and \<^verbatim>\<open>optarg\<close>. A long name stands for the table entry of that name or, when
  there is none, for the only entry that it is a prefix of. An unknown or ambiguous
  option, a missing argument and \<^verbatim>\<open>--name=arg\<close> for an entry without argument give
  \<^verbatim>\<open>'?'\<close> (the optstring does not start with a colon). A short option without
  argument is returned as it is; what follows it in the same word is left to the next
  call. Non-option arguments are skipped by \<^verbatim>\<open>getopt_long\<close> and are not part of the list.
\<close>

datatype argv_option = Short char "string option" | Long string "string option"

fun short_lookup :: "string \<Rightarrow> char \<Rightarrow> bool option" where
  "short_lookup [] c = None"
| "short_lookup (x # xs) c =
     (if x = c \<and> c \<noteq> CHR '':'' then Some (case xs of y # _ \<Rightarrow> y = CHR '':'' | [] \<Rightarrow> False)
      else short_lookup xs c)"

definition long_lookup :: "string \<Rightarrow> long_option option" where
  "long_lookup n =
     (case find (\<lambda>opt. name opt = n) long_options of
        Some opt \<Rightarrow> Some opt
      | None \<Rightarrow>
          (case filter (\<lambda>opt. take (length n) (name opt) = n) long_options of
             [opt] \<Rightarrow> Some opt
           | _ \<Rightarrow> None))"

fun getopt_long :: "argv_option \<Rightarrow> char \<times> string" where
  "getopt_long (Short c arg) =
     (case short_lookup optstring c of
        None \<Rightarrow> (CHR ''?'', [])
      | Some True \<Rightarrow> (case arg of Some a \<Rightarrow> (c, a) | None \<Rightarrow> (CHR ''?'', []))
      | Some False \<Rightarrow> (c, []))"
| "getopt_long (Long n arg) =
     (case long_lookup n of
        None \<Rightarrow> (CHR ''?'', [])
      | Some opt \<Rightarrow>
          if has_arg opt = 1 then (case arg of Some a \<Rightarrow> (val opt, a) | None \<Rightarrow> (CHR ''?'', []))
          else (case arg of None \<Rightarrow> (val opt, []) | Some a \<Rightarrow> (CHR ''?'', [])))"

section \<open>parse\_opt\<close>

text \<open>What the program prints on \<^verbatim>\<open>stderr\<close>, one constructor per message of the source,
  with the text that the format's \<^verbatim>\<open>%s\<close> or \<^verbatim>\<open>%d\<close> shows.\<close>

datatype diag =
    Cannot_open_file string
  | Bad_peb_size string
  | Bad_size_specifier string
  | Bad_min_io_size string
  | Bad_erase_counter string
  | Bad_volume_id string
  | Bad_volume_type string
  | Bad_ubi_version string
  | Bad_vid_hdr_offset string
  | Help_text
  | Version_text
  | Parameter_missing
  | Use_h_for_help
  | No_input_file
  | No_volume_id
  | No_peb_size
  | No_min_io_size
  | Cannot_fetch_file_size
  | Cannot_create_handler c_int
  | Error_converting

text \<open>
  The three ways \<open>parse_opt\<close> ends: \<^verbatim>\<open>return 0\<close> with the global \<^verbatim>\<open>args\<close> filled in,
  \<^verbatim>\<open>return -1\<close> after a message, and \<^verbatim>\<open>exit(EXIT_SUCCESS)\<close> after the help or version
  text.
\<close>

datatype parse_result = Return_ok args | Return_err diag | Exit_success diag

text \<open>
  What the program takes from outside its own source file: the file system behind
  \<^verbatim>\<open>fopen\<close> and \<^verbatim>\<open>fstat\<close>, \<^verbatim>\<open>ubiutils_get_multiplier\<close> of common.c, the contents of
  the \<^verbatim>\<open>struct stat\<close> on main's stack before anything is stored in it, and the return
  codes of the three library calls of main.
\<close>

record create_call =
  c_vol_id :: "32 word"
  c_vol_type :: c_int
  c_eb_size :: c_int
  c_ec :: c_int
  c_alignment :: c_int
  c_version :: c_int
  c_vid_hdr_offset :: c_int
  c_compat_flag :: c_int
  c_data_size :: off_t
  c_fp_in :: "FILE option"
  c_fp_out :: "FILE option"

record env =
  fopen :: "string \<Rightarrow> string \<Rightarrow> FILE option"
  ubiutils_get_multiplier :: "string \<Rightarrow> c_int"
  fstat_st_size :: "FILE option \<Rightarrow> off_t option"
  uninit_st_size :: off_t
  ubigen_create :: "create_call \<Rightarrow> c_int"
  ubigen_write_complete :: "create_call \<Rightarrow> c_int"
  ubigen_destroy :: "create_call \<Rightarrow> c_int"

text \<open>
  The cases \<^verbatim>\<open>'b'\<close> and \<^verbatim>\<open>'m'\<close> share their shape: convert, reject no digits or a
  value \<^verbatim>\<open><= 0\<close>, and multiply by the unit when text follows the number. The product
  of two \<^verbatim>\<open>int\<close>s is written as the wrap-around of 32-bit words.
\<close>

definition parse_size :: "env \<Rightarrow> (string \<Rightarrow> diag) \<Rightarrow> string \<Rightarrow> diag + c_int" where
  "parse_size e bad optarg =
     (let (v, n) = strtoull optarg; x = to_int v; endp = drop n optarg in
      if n = 0 \<or> sint x \<le> 0 then Inl (bad optarg)
      else if endp \<noteq> [] then
        (let mult = ubiutils_get_multiplier e endp in
         if mult = - 1 then Inl (Bad_size_specifier endp) else Inr (x * mult))
      else Inr x)"

text \<open>The cases \<^verbatim>\<open>'e'\<close>, \<^verbatim>\<open>'I'\<close>, \<^verbatim>\<open>'x'\<close> and \<^verbatim>\<open>'O'\<close>: convert, reject no digits or a
  negative value; text after the number is not looked at.\<close>

definition parse_num :: "(string \<Rightarrow> diag) \<Rightarrow> string \<Rightarrow> diag + c_int" where
  "parse_num bad optarg =
     (let (v, n) = strtoul optarg; x = to_int v in
      if n = 0 \<or> sint x < 0 then Inl (bad optarg) else Inr x)"

text \<open>The body of the \<^verbatim>\<open>switch (key)\<close>: \<open>Inr\<close> is \<^verbatim>\<open>break\<close> with the updated \<^verbatim>\<open>args\<close>,
  \<open>Inl\<close> leaves \<open>parse_opt\<close>.\<close>

definition parse_opt_case :: "env \<Rightarrow> char \<Rightarrow> string \<Rightarrow> args \<Rightarrow> parse_result + args" where
  "parse_opt_case e key optarg a =
     (if key = CHR ''o'' then
        (case fopen e optarg ''wb'' of
           None \<Rightarrow> Inl (Return_err (Cannot_open_file optarg))
         | Some f \<Rightarrow> Inr (a\<lparr>fp_out := Some f\<rparr>))
      else if key = CHR ''i'' then
        (case fopen e optarg ''rb'' of
           None \<Rightarrow> Inl (Return_err (Cannot_open_file optarg))
         | Some f \<Rightarrow> Inr (a\<lparr>fp_in := Some f\<rparr>))
      else if key = CHR ''b'' then
        (case parse_size e Bad_peb_size optarg of
           Inl d \<Rightarrow> Inl (Return_err d)
         | Inr x \<Rightarrow> Inr (a\<lparr>peb_size := x\<rparr>))
      else if key = CHR ''m'' then
        (case parse_size e Bad_min_io_size optarg of
           Inl d \<Rightarrow> Inl (Return_err d)
         | Inr x \<Rightarrow> Inr (a\<lparr>min_io_size := x\<rparr>))
      else if key = CHR ''e'' then
        (case parse_num Bad_erase_counter optarg of
           Inl d \<Rightarrow> Inl (Return_err d)
         | Inr x \<Rightarrow> Inr (a\<lparr>ec := x\<rparr>))
      else if key = CHR ''I'' then
        (case parse_num Bad_volume_id optarg of
           Inl d \<Rightarrow> Inl (Return_err d)
         | Inr x \<Rightarrow> Inr (a\<lparr>id_a := x\<rparr>))
      else if key = CHR ''t'' then
        (if optarg = ''dynamic'' then Inr (a\<lparr>type_a := UBI_VID_DYNAMIC\<rparr>)
         else if optarg = ''static'' then Inr (a\<lparr>type_a := UBI_VID_STATIC\<rparr>)
         else Inl (Return_err (Bad_volume_type optarg)))
      else if key = CHR ''x'' then
        (case parse_num Bad_ubi_version optarg of
           Inl d \<Rightarrow> Inl (Return_err d)
         | Inr x \<Rightarrow> Inr (a\<lparr>ubi_ver := x\<rparr>))
      else if key = CHR ''O'' then
        (case parse_num Bad_vid_hdr_offset optarg of
           Inl d \<Rightarrow> Inl (Return_err d)
         | Inr x \<Rightarrow> Inr (a\<lparr>vid_hdr_offs := x\<rparr>))
      else if key = CHR ''h'' then Inl (Exit_success Help_text)
      else if key = CHR ''V'' then Inl (Exit_success Version_text)
      else if key = CHR '':'' then Inl (Return_err Parameter_missing)
      else Inl (Return_err Use_h_for_help))"

text \<open>The checks after the loop.\<close>

definition parse_opt_finish :: "args \<Rightarrow> parse_result" where
  "parse_opt_finish a =
     (if fp_in a = None then Return_err No_input_file
      else
        (let a1 = (if fp_out a = None then a\<lparr>fp_out := Some Stdout\<rparr> else a) in
         if sint (id_a a1) < 0 then Return_err No_volume_id
         else if sint (peb_size a1) < 0 then Return_err No_peb_size
         else if sint (min_io_size a1) < 0 then Return_err No_min_io_size
         else Return_ok
                (if sint (sub_page_size a1) < 0 then a1\<lparr>sub_page_size := min_io_size a1\<rparr>
                 else a1)))"

text \<open>The \<^verbatim>\<open>while (1)\<close> loop over the keys that successive calls of \<^verbatim>\<open>getopt_long\<close>
  return; the empty list is the call that returns \<^verbatim>\<open>-1\<close>.\<close>

fun parse_opt_from :: "env \<Rightarrow> (char \<times> string) list \<Rightarrow> args \<Rightarrow> parse_result" where
  "parse_opt_from e [] a = parse_opt_finish a"
| "parse_opt_from e ((key, optarg) # rest) a =
     (case parse_opt_case e key optarg a of
        Inl r \<Rightarrow> r
      | Inr a' \<Rightarrow> parse_opt_from e rest a')"

definition parse_opt :: "env \<Rightarrow> (char \<times> string) list \<Rightarrow> parse_result" where
  "parse_opt e keys = parse_opt_from e keys args_init"

section \<open>main\<close>

text \<open>What main does that can be seen from outside: messages on \<^verbatim>\<open>stderr\<close> and the
  calls into the library, in order.\<close>

datatype event =
    Ubigen_init
  | Stderr diag
  | Ubigen_create create_call
  | Ubigen_write_complete create_call
  | Ubigen_destroy create_call

datatype main_result = Main_returns c_int | Main_exits c_int

definition create_args :: "args \<Rightarrow> off_t \<Rightarrow> create_call" where
  "create_args a input_len =
     \<lparr> c_vol_id = id_a a, c_vol_type = type_a a, c_eb_size = peb_size a, c_ec = ec a,
       c_alignment = alignment a, c_version = ubi_ver a, c_vid_hdr_offset = vid_hdr_offs a,
       c_compat_flag = 0, c_data_size = input_len, c_fp_in = fp_in a, c_fp_out = fp_out a \<rparr>"

definition main :: "env \<Rightarrow> (char \<times> string) list \<Rightarrow> event list \<times> main_result" where
  "main e keys =
     (case parse_opt e keys of
        Exit_success d \<Rightarrow> ([Ubigen_init, Stderr d], Main_exits EXIT_SUCCESS)
      | Return_err d \<Rightarrow> ([Ubigen_init, Stderr d], Main_returns (- 1))
      | Return_ok a \<Rightarrow>
          (let st = fstat_st_size e (fp_in a);
               warn = (case st of None \<Rightarrow> [Stderr Cannot_fetch_file_size] | Some sz \<Rightarrow> []);
               input_len = (case st of None \<Rightarrow> uninit_st_size e | Some sz \<Rightarrow> sz);
               u = create_args a input_len;
               err = ubigen_create e u in
           if err \<noteq> 0 then
             ([Ubigen_init] @ warn @ [Ubigen_create u, Stderr (Cannot_create_handler err)],
              Main_returns (- 1))
           else if ubigen_write_complete e u \<noteq> 0 then
             ([Ubigen_init] @ warn @ [Ubigen_create u, Ubigen_write_complete u,
               Stderr Error_converting], Main_returns (- 1))
           else
             ([Ubigen_init] @ warn @ [Ubigen_create u, Ubigen_write_complete u,
               Ubigen_destroy u], Main_returns (ubigen_destroy e u))))"

section \<open>Concrete environments\<close>

text \<open>
  A file system in which every \<^verbatim>\<open>fopen\<close> succeeds and \<^verbatim>\<open>fstat\<close> fails, a unit table for
  \<^verbatim>\<open>ubiutils_get_multiplier\<close> with the three units that the error message of
  \<open>parse_opt\<close> names, and library calls that return 0. The theorems below hold for
  every environment; this one is where they are evaluated.
\<close>

definition fopen_any :: "string \<Rightarrow> string \<Rightarrow> FILE option" where
  "fopen_any path mode = Some (Stream path mode)"

definition unit_multiplier :: "string \<Rightarrow> c_int" where
  "unit_multiplier s =
     (if s = ''KiB'' then 1024 else if s = ''MiB'' then 1024 * 1024
      else if s = ''GiB'' then 1024 * 1024 * 1024 else - 1)"

definition fstat_fails :: "FILE option \<Rightarrow> off_t option" where
  "fstat_fails f = None"

definition rc_zero :: "create_call \<Rightarrow> c_int" where
  "rc_zero u = 0"

definition env_fstat_fails :: env where
  "env_fstat_fails =
     \<lparr> fopen = fopen_any, ubiutils_get_multiplier = unit_multiplier,
       fstat_st_size = fstat_fails, uninit_st_size = 77,
       ubigen_create = rc_zero, ubigen_write_complete = rc_zero, ubigen_destroy = rc_zero \<rparr>"

text \<open>The keys of \<^verbatim>\<open>ubigen -i in -b 131072 -m 2KiB -I 3\<close> and the \<^verbatim>\<open>args\<close> they give.\<close>

definition keys_ok :: "(char \<times> string) list" where
  "keys_ok =
     [(CHR ''i'', ''in''), (CHR ''b'', ''131072''), (CHR ''m'', ''2KiB''), (CHR ''I'', ''3'')]"

definition args_ok :: args where
  "args_ok =
     \<lparr> fp_in = Some (Stream ''in'' ''rb''), fp_out = Some Stdout, peb_size = 131072,
       id_a = 3, min_io_size = 2048, type_a = UBI_VID_DYNAMIC, sub_page_size = 2048,
       alignment = 1, vid_hdr_offs = 0, ec = 0, ubi_ver = 0 \<rparr>"

text \<open>The keys of \<^verbatim>\<open>ubigen -i in -b 131072 -m 4KiB -I 3\<close> and the \<^verbatim>\<open>args\<close> they give.\<close>

definition keys_4k :: "(char \<times> string) list" where
  "keys_4k =
     [(CHR ''i'', ''in''), (CHR ''b'', ''131072''), (CHR ''m'', ''4KiB''), (CHR ''I'', ''3'')]"

definition args_4k :: args where
  "args_4k =
     \<lparr> fp_in = Some (Stream ''in'' ''rb''), fp_out = Some Stdout, peb_size = 131072,
       id_a = 3, min_io_size = 4096, type_a = UBI_VID_DYNAMIC, sub_page_size = 4096,
       alignment = 1, vid_hdr_offs = 0, ec = 0, ubi_ver = 0 \<rparr>"

section \<open>The image builder, modelled from the spec\<close>

text \<open>
  main hands the work to \<^verbatim>\<open>ubigen_create\<close> and \<^verbatim>\<open>ubigen_write_complete\<close> of libubigen;
  neither the library nor the header \<^verbatim>\<open><mtd/ubi-header.h>\<close> is part of ubigen.c. This
  section follows sections 3, 4, 6 and 7 of the specification instead. Streams are
  finite byte lists, so that a read or a write cannot fail: the I/O error of section 7
  has no cause in this model.
\<close>

text \<open>Modelled from the spec: \<^verbatim>\<open>EC_HDR_SIZE\<close> of the missing \<^verbatim>\<open><mtd/ubi-header.h>\<close>, the
  size of the EC header. The spec names the sizes of the two headers without giving
  them; both are the 64 bytes of the UBI on-flash format.\<close>

definition EC_HDR_SIZE :: nat where
  "EC_HDR_SIZE = 64"

text \<open>Modelled from the spec: \<^verbatim>\<open>VID_HDR_SIZE\<close> of the missing \<^verbatim>\<open><mtd/ubi-header.h>\<close>, the
  size of the VID header.\<close>

definition VID_HDR_SIZE :: nat where
  "VID_HDR_SIZE = 64"

text \<open>Modelled from the spec: the "magic tag" of the EC header (section 3), \<^verbatim>\<open>UBI#\<close> in
  the missing \<^verbatim>\<open><mtd/ubi-header.h>\<close>.\<close>

definition EC_HDR_MAGIC :: nat where
  "EC_HDR_MAGIC = 0x55424923"

text \<open>Modelled from the spec: the "magic tag" of the VID header (section 3), \<^verbatim>\<open>UBI!\<close> in
  the missing \<^verbatim>\<open><mtd/ubi-header.h>\<close>.\<close>

definition VID_HDR_MAGIC :: nat where
  "VID_HDR_MAGIC = 0x55424921"

text \<open>Modelled from the spec: the checksum of the missing header codec, "a standard
  CRC-32" computed "as a pure function over a byte slice" (sections 4.1 and 9): the
  reflected polynomial \<^verbatim>\<open>0xEDB88320\<close>, all ones at the start, inverted at the end.
  \<open>crc32_bits n\<close> shifts \<open>n\<close> bits out of the register.\<close>

fun crc32_bits :: "nat \<Rightarrow> 32 word \<Rightarrow> 32 word" where
  "crc32_bits 0 c = c"
| "crc32_bits (Suc n) c =
     crc32_bits n (if bit c 0 then drop_bit 1 c XOR 0xEDB88320 else drop_bit 1 c)"

text \<open>Modelled from the spec: one byte of input to the checksum of the missing header
  codec: the byte is added to the low end of the register, then eight bit steps.\<close>

definition crc32_byte :: "32 word \<Rightarrow> byte \<Rightarrow> 32 word" where
  "crc32_byte c b = crc32_bits 8 (c XOR ucast b)"

text \<open>Modelled from the spec: the "standard CRC-32" of the missing header codec over a
  byte sequence.\<close>

definition crc32 :: "byte list \<Rightarrow> 32 word" where
  "crc32 bs = foldl crc32_byte 0xFFFFFFFF bs XOR 0xFFFFFFFF"



text \<open>Modelled from the spec: \<open>vol_type\<close> of section 3, "enum {Dynamic, Static}", of the
  missing library.\<close>

datatype vol_type = Dynamic | Static

text \<open>Modelled from the spec: VolumeGeometry of section 3, which the missing library
  implements, as the caller supplies it (section 6): integers, with
  \<open>geo_sub_page_size = None\<close> for "unspecified" and \<open>geo_vid_hdr_offset = 0\<close> for "use the
  default". The fields carry the prefix \<open>geo_\<close>: the plain names are the fields of
  \<^verbatim>\<open>struct args\<close>.\<close>

record volume_geometry =
  geo_peb_size :: int
  geo_min_io_size :: int
  geo_sub_page_size :: "int option"
  geo_vid_hdr_offset :: int
  geo_alignment :: int

text \<open>Modelled from the spec: VolumeParams of section 3, the volume inputs of the
  missing library.\<close>

record volume_params =
  vol_id :: nat
  vol_type :: vol_type
  erase_counter :: nat
  ubi_format_version :: nat
  declared_data_length :: nat

text \<open>Modelled from the spec: ECHeader of section 3, a structure of the missing
  \<^verbatim>\<open><mtd/ubi-header.h>\<close>, with the fields in the order the spec lists them. The header
  checksum is not a field of the record: \<open>encode_ec_header\<close> computes it.\<close>

record ec_header =
  ec_magic :: nat
  ec_version :: nat
  ec_erase_counter :: nat
  ec_vid_hdr_offset :: nat
  ec_data_offset :: nat

text \<open>Modelled from the spec: VIDHeader of section 3, a structure of the missing
  \<^verbatim>\<open><mtd/ubi-header.h>\<close>, with the fields in the order the spec lists them and the
  header checksum left to \<open>encode_vid_header\<close>.\<close>

record vid_header =
  vid_magic :: nat
  vid_version :: nat
  vid_vol_type :: vol_type
  vid_copy_flag :: bool
  vid_compat :: nat
  vid_vol_id :: nat
  vid_lnum :: nat
  vid_sqnum :: nat
  vid_used_bytes :: nat
  vid_data_pad :: nat
  vid_data_crc :: "32 word"






text \<open>Modelled from the spec: the state of a session of the missing image builder
  (section 4.2): the geometry once validated, with the default VID header offset
  filled in and \<open>leb_size\<close> computed, and the volume parameters.\<close>

record session =
  s_peb_size :: nat
  s_vid_hdr_offset :: nat
  s_leb_size :: nat
  s_data_pad :: nat
  s_params :: volume_params

text \<open>Modelled from the spec: the error kinds of section 7 that the missing library
  reports and this model can reach; the input-contract error carries "the count of
  bytes actually consumed".\<close>

datatype error = Configuration_error | Input_contract_error nat

text \<open>Modelled from the spec: "aligned up to \<open>sub_page_size\<close>" in the default of
  \<open>vid_hdr_offset\<close> (section 3), computed by the missing session constructor.\<close>

definition align_up :: "int \<Rightarrow> int \<Rightarrow> int" where
  "align_up x a = ((x + a - 1) div a) * a"

text \<open>Modelled from the spec: session construction, \<^verbatim>\<open>ubigen_create\<close> of the missing
  library, with the validation of sections 3 and 7. \<open>sub_page_size\<close> defaults to
  \<open>min_io_size\<close>; a zero \<open>vid_hdr_offset\<close> becomes \<open>sub_page_size * 2\<close> aligned up to
  \<open>sub_page_size\<close>; \<open>leb_size\<close> is \<open>peb_size - vid_hdr_offset - VID_HDR_SIZE\<close> rounded down
  to a multiple of \<open>alignment\<close>. A configuration error is: \<open>peb_size \<le> 0\<close>,
  \<open>min_io_size \<le> 0\<close>, \<open>min_io_size\<close> not dividing \<open>peb_size\<close> ("must evenly relate"),
  \<open>sub_page_size\<close> not positive or \<open>> min_io_size\<close>, a negative \<open>vid_hdr_offset\<close>, no
  room for the VID header, \<open>alignment\<close> not positive or not dividing the usable size,
  \<open>leb_size \<le> 0\<close>. Nothing else is rejected: the spec does not ask that
  \<open>vid_hdr_offset\<close> leaves room for the EC header.\<close>

definition create_session :: "volume_geometry \<Rightarrow> volume_params \<Rightarrow> error + session" where
  "create_session g p =
     (let peb = geo_peb_size g;
          min_io = geo_min_io_size g;
          sub = (case geo_sub_page_size g of None \<Rightarrow> min_io | Some x \<Rightarrow> x);
          vho = (if geo_vid_hdr_offset g = 0 then align_up (sub * 2) sub
                 else geo_vid_hdr_offset g);
          al = geo_alignment g;
          usable = peb - vho - int VID_HDR_SIZE;
          pad = usable mod al;
          leb = usable - pad
      in if peb \<le> 0 \<or> min_io \<le> 0 \<or> peb mod min_io \<noteq> 0 \<or> sub \<le> 0 \<or> min_io < sub \<or>
            geo_vid_hdr_offset g < 0 \<or> peb < vho + int VID_HDR_SIZE \<or>
            al \<le> 0 \<or> pad \<noteq> 0 \<or> leb \<le> 0
         then Inl Configuration_error
         else Inr \<lparr> s_peb_size = nat peb, s_vid_hdr_offset = nat vho, s_leb_size = nat leb,
                    s_data_pad = nat pad, s_params = p \<rparr>)"

text \<open>Modelled from the spec: the running state that the missing image builder owns
  (section 4.2): \<open>lnum\<close>, \<open>sqnum\<close> and the number of payload bytes emitted so far.\<close>

record builder_state =
  lnum :: nat
  sqnum :: nat
  emitted :: nat

text \<open>Modelled from the spec: what the missing image builder produces per physical
  eraseblock (section 3): an (ECHeader, VIDHeader, payload) triple.\<close>

record peb =
  blk_ec :: ec_header
  blk_vid :: vid_header
  blk_payload :: "byte list"

text \<open>Modelled from the spec: the result of the missing \<^verbatim>\<open>ubigen_write_complete\<close>: the
  states Done and Failed of section 4.2.\<close>

datatype status = Done | Failed error

text \<open>Modelled from the spec: step (d) of the missing write loop (section 4.2), the EC
  header of a block, "created fresh for every physical eraseblock" from the session's
  values; the data offset is the end of the VID header.\<close>

definition build_ec_header :: "session \<Rightarrow> ec_header" where
  "build_ec_header s =
     \<lparr> ec_magic = EC_HDR_MAGIC, ec_version = ubi_format_version (s_params s),
       ec_erase_counter = erase_counter (s_params s),
       ec_vid_hdr_offset = s_vid_hdr_offset s,
       ec_data_offset = s_vid_hdr_offset s + VID_HDR_SIZE \<rparr>"

text \<open>Modelled from the spec: step (d) of the missing write loop (section 4.2), the VID
  header of a block. It carries \<open>lnum\<close> and \<open>sqnum\<close>, the copy flag "always unset", and
  \<open>used_bytes\<close> and \<open>data_crc\<close> "only when this is the final block of a Static volume",
  zero otherwise. No input of section 6 supplies the compatibility flag; it is 0.\<close>

definition build_vid_header ::
  "session \<Rightarrow> builder_state \<Rightarrow> bool \<Rightarrow> byte list \<Rightarrow> vid_header" where
  "build_vid_header s st final chunk =
     \<lparr> vid_magic = VID_HDR_MAGIC, vid_version = ubi_format_version (s_params s),
       vid_vol_type = vol_type (s_params s), vid_copy_flag = False,
       vid_compat = 0, vid_vol_id = vol_id (s_params s),
       vid_lnum = lnum st, vid_sqnum = sqnum st,
       vid_used_bytes = (if final then length chunk else 0),
       vid_data_pad = s_data_pad s,
       vid_data_crc = (if final then crc32 chunk else 0) \<rparr>"

text \<open>Modelled from the spec: step (a) of the missing write loop, "read up to
  \<open>leb_size\<close> bytes from the input stream", for either volume type.\<close>

definition read_size :: "session \<Rightarrow> nat" where
  "read_size s = s_leb_size s"

text \<open>Modelled from the spec: steps (b) and (c) of the missing write loop and the policy
  of section 4.2 for a short Static input: when a read returns no bytes, a Dynamic
  volume is Done, a Static volume is Done if the declared length is fully emitted and
  fails with the input-contract error otherwise.\<close>

definition end_of_input :: "session \<Rightarrow> builder_state \<Rightarrow> status" where
  "end_of_input s st =
     (case vol_type (s_params s) of
        Dynamic \<Rightarrow> Done
      | Static \<Rightarrow>
          if declared_data_length (s_params s) \<le> emitted st then Done
          else Failed (Input_contract_error (emitted st)))"

text \<open>Modelled from the spec: the test of step (d) of the missing write loop for the
  final block of a Static volume, "comparing bytes emitted so far + bytes just read
  against \<open>declared_data_length\<close>".\<close>

definition is_final :: "session \<Rightarrow> builder_state \<Rightarrow> byte list \<Rightarrow> bool" where
  "is_final s st chunk =
     (vol_type (s_params s) = Static \<and>
      declared_data_length (s_params s) \<le> emitted st + length chunk)"

text \<open>Modelled from the spec: step (d) of the missing write loop, the triple for the
  bytes just read.\<close>

definition build_peb :: "session \<Rightarrow> builder_state \<Rightarrow> byte list \<Rightarrow> peb" where
  "build_peb s st chunk =
     \<lparr> blk_ec = build_ec_header s,
       blk_vid = build_vid_header s st (is_final s st chunk) chunk,
       blk_payload = chunk \<rparr>"

text \<open>Modelled from the spec: step (f) of the missing write loop, "increment \<open>lnum\<close> and
  \<open>sqnum\<close>".\<close>

definition advance :: "builder_state \<Rightarrow> byte list \<Rightarrow> builder_state" where
  "advance st chunk =
     \<lparr> lnum = lnum st + 1, sqnum = sqnum st + 1, emitted = emitted st + length chunk \<rparr>"

text \<open>Modelled from the spec: the Writing state of the missing
  \<^verbatim>\<open>ubigen_write_complete\<close> (section 4.2), one iteration per physical eraseblock. The
  result is the final state and the blocks emitted, which stay emitted when the loop
  fails. Every iteration that goes on has consumed at least one byte of the input.\<close>

function write_loop :: "session \<Rightarrow> builder_state \<Rightarrow> byte list \<Rightarrow> status \<times> peb list" where
  "write_loop s st inp =
     (let chunk = take (read_size s) inp
      in if chunk = [] then (end_of_input s st, [])
         else
           (let (r, blks) = write_loop s (advance st chunk) (drop (length chunk) inp)
            in (r, build_peb s st chunk # blks)))"
  by pat_completeness auto
termination
  by (relation "measure (\<lambda>(s, st, inp). length inp)") auto

declare write_loop.simps [simp del]

text \<open>Modelled from the spec: the Init state of the missing image builder,
  "\<open>lnum = 0\<close>, \<open>sqnum = 0\<close>", with nothing emitted.\<close>

definition init_state :: builder_state where
  "init_state = \<lparr> lnum = 0, sqnum = 0, emitted = 0 \<rparr>"

text \<open>Modelled from the spec: the "write complete volume" operation,
  \<^verbatim>\<open>ubigen_write_complete\<close> of the missing library: the write loop from the Init state.\<close>

definition write_complete :: "session \<Rightarrow> byte list \<Rightarrow> status \<times> peb list" where
  "write_complete s inp = write_loop s init_state inp"



subsection \<open>A small geometry\<close>

text \<open>
  Physical eraseblocks of 132 bytes with the VID header at offset 64 leave 4 bytes of
  payload per block. Six input bytes make two blocks; five bytes are one short of a
  declared length of six.
\<close>

definition geo_small :: volume_geometry where
  "geo_small =
     \<lparr> geo_peb_size = 132, geo_min_io_size = 1, geo_sub_page_size = None,
       geo_vid_hdr_offset = 64, geo_alignment = 1 \<rparr>"

definition params_dynamic :: volume_params where
  "params_dynamic =
     \<lparr> vol_id = 5, vol_type = Dynamic, erase_counter = 0, ubi_format_version = 1,
       declared_data_length = 0 \<rparr>"

definition params_static :: volume_params where
  "params_static =
     \<lparr> vol_id = 5, vol_type = Static, erase_counter = 0, ubi_format_version = 1,
       declared_data_length = 6 \<rparr>"

definition session_small :: "volume_params \<Rightarrow> session" where
  "session_small p =
     \<lparr> s_peb_size = 132, s_vid_hdr_offset = 64, s_leb_size = 4, s_data_pad = 0,
       s_params = p \<rparr>"

definition input6 :: "byte list" where
  "input6 = [1, 2, 3, 4, 5, 6]"

definition input5 :: "byte list" where
  "input5 = [1, 2, 3, 4, 5]"

definition input9 :: "byte list" where
  "input9 = [1, 2, 3, 4, 5, 6, 7, 8, 9]"



definition peb_small :: "volume_params \<Rightarrow> nat \<Rightarrow> nat \<Rightarrow> 32 word \<Rightarrow> byte list \<Rightarrow> peb" where
  "peb_small p n used crc chunk =
     \<lparr> blk_ec = build_ec_header (session_small p),
       blk_vid =
         \<lparr> vid_magic = VID_HDR_MAGIC, vid_version = 1, vid_vol_type = vol_type p,
           vid_copy_flag = False, vid_compat = 0, vid_vol_id = 5, vid_lnum = n,
           vid_sqnum = n, vid_used_bytes = used, vid_data_pad = 0, vid_data_crc = crc \<rparr>,
       blk_payload = chunk \<rparr>"

section \<open>Evaluating the parser\<close>

lemmas strtoull_eval =
  strtoull_def isspace_def is_digit_of_def digit_val_def digits_value_def ULLONG_MAX_def

lemma strtoull_0: "strtoull ''0'' = (0, 1)"
  by (simp add: strtoull_eval)

lemma strtoull_3: "strtoull ''3'' = (3, 1)"
  by (simp add: strtoull_eval)

lemma strtoull_131072: "strtoull ''131072'' = (131072, 6)"
  by (simp add: strtoull_eval)

lemma strtoull_2KiB: "strtoull ''2KiB'' = (2, 1)"
  by (simp add: strtoull_eval)

text \<open>A negative number whose low 32 bits are positive: \<^verbatim>\<open>-b -4294967295\<close> stores 1.\<close>

lemma strtoull_minus_4294967295:
  "strtoull ''-4294967295'' = (18446744069414584321, 11)"
  by (simp add: strtoull_eval)

lemma to_int_minus_4294967295: "sint (to_int (fst (strtoull ''-4294967295''))) = 1"
  by (simp add: strtoull_minus_4294967295 to_int_def)

lemmas parse_eval =
  parse_opt_def parse_opt_case_def parse_size_def parse_num_def strtoul_def to_int_def
  parse_opt_finish_def args_init_def env_fstat_fails_def fopen_any_def unit_multiplier_def
  strtoull_0 strtoull_3 strtoull_131072 strtoull_2KiB

lemma parse_opt_keys_ok: "parse_opt env_fstat_fails keys_ok = Return_ok args_ok"
  by (simp add: keys_ok_def args_ok_def parse_eval)

lemma strtoull_4KiB: "strtoull ''4KiB'' = (4, 1)"
  by (simp add: strtoull_eval)

lemma parse_opt_keys_4k: "parse_opt env_fstat_fails keys_4k = Return_ok args_4k"
  by (simp add: keys_4k_def args_4k_def parse_eval strtoull_4KiB)

lemma parse_size_2KiB: "parse_size env_fstat_fails Bad_min_io_size ''2KiB'' = Inr 2048"
  by (simp add: parse_eval)

section \<open>Properties of parse\_opt and main\<close>

lemma parse_size_bad:
  "snd (strtoull optarg) = 0 \<or> sint (to_int (fst (strtoull optarg))) \<le> 0 \<Longrightarrow>
   parse_size e bad optarg = Inl (bad optarg)"
  by (auto simp: parse_size_def split: prod.splits)

lemma parse_opt_case_b:
  "parse_opt_case e (CHR ''b'') optarg a =
     (case parse_size e Bad_peb_size optarg of
        Inl d \<Rightarrow> Inl (Return_err d) | Inr x \<Rightarrow> Inr (a\<lparr>peb_size := x\<rparr>))"
  by (simp add: parse_opt_case_def)

lemma parse_opt_case_m:
  "parse_opt_case e (CHR ''m'') optarg a =
     (case parse_size e Bad_min_io_size optarg of
        Inl d \<Rightarrow> Inl (Return_err d) | Inr x \<Rightarrow> Inr (a\<lparr>min_io_size := x\<rparr>))"
  by (simp add: parse_opt_case_def)

lemma parse_opt_case_bad_size:
  assumes "k = CHR ''b'' \<or> k = CHR ''m''"
    and "snd (strtoull optarg) = 0 \<or> sint (to_int (fst (strtoull optarg))) \<le> 0"
  shows "\<exists>d. parse_opt_case e k optarg a = Inl (Return_err d)"
proof -
  from assms(1) show ?thesis
  proof
    assume "k = CHR ''b''"
    then show ?thesis
      using parse_size_bad [OF assms(2), of e Bad_peb_size] by (simp add: parse_opt_case_b)
  next
    assume "k = CHR ''m''"
    then show ?thesis
      using parse_size_bad [OF assms(2), of e Bad_min_io_size] by (simp add: parse_opt_case_m)
  qed
qed

lemma parse_opt_case_s:
  "parse_opt_case e (CHR ''s'') optarg a = Inl (Return_err Use_h_for_help)"
  by (simp add: parse_opt_case_def)

lemma parse_opt_case_a:
  "parse_opt_case e (CHR ''a'') optarg a = Inl (Return_err Use_h_for_help)"
  by (simp add: parse_opt_case_def)

lemma parse_opt_case_Inl:
  assumes "parse_opt_case e key optarg a = Inl r"
  shows "(\<exists>d. r = Return_err d) \<or>
         ((key = CHR ''h'' \<or> key = CHR ''V'') \<and> (\<exists>d. r = Exit_success d))"
  using assms unfolding parse_opt_case_def
  by (simp split: if_split_asm option.split_asm sum.split_asm) blast+

lemma parse_opt_case_keeps:
  assumes "parse_opt_case e key optarg a = Inr a'"
  shows "sub_page_size a' = sub_page_size a \<and> alignment a' = alignment a
         \<and> (key \<noteq> CHR ''x'' \<longrightarrow> ubi_ver a' = ubi_ver a)
         \<and> (key \<noteq> CHR ''m'' \<longrightarrow> min_io_size a' = min_io_size a)"
  using assms unfolding parse_opt_case_def
  by (simp split: if_split_asm option.split_asm sum.split_asm) auto

lemma parse_opt_finish_ok:
  assumes "parse_opt_finish a = Return_ok a'"
  shows "sub_page_size a' =
           (if sint (sub_page_size a) < 0 then min_io_size a' else sub_page_size a)
         \<and> alignment a' = alignment a \<and> ubi_ver a' = ubi_ver a \<and> fp_in a' \<noteq> None
         \<and> min_io_size a' = min_io_size a \<and> 0 \<le> sint (min_io_size a)"
  using assms
  by (auto simp: parse_opt_finish_def Let_def split: if_splits)

lemma parse_opt_from_ok:
  assumes "parse_opt_from e keys a = Return_ok a'" and "sint (sub_page_size a) < 0"
  shows "sub_page_size a' = min_io_size a' \<and> alignment a' = alignment a
         \<and> (CHR ''x'' \<notin> fst ` set keys \<longrightarrow> ubi_ver a' = ubi_ver a)"
  using assms
proof (induction keys arbitrary: a)
  case Nil
  then show ?case using parse_opt_finish_ok [of a a'] by simp
next
  case (Cons p keys)
  obtain key optarg where p: "p = (key, optarg)" by (cases p)
  show ?case
  proof (cases "parse_opt_case e key optarg a")
    case (Inl r)
    with Cons.prems p have "r = Return_ok a'" by simp
    with parse_opt_case_Inl [OF Inl] show ?thesis by auto
  next
    case (Inr a1)
    from parse_opt_case_keeps [OF Inr] Cons.prems(2)
    have k: "sub_page_size a1 = sub_page_size a" "alignment a1 = alignment a"
      "key \<noteq> CHR ''x'' \<longrightarrow> ubi_ver a1 = ubi_ver a" by auto
    from Cons.prems p Inr have "parse_opt_from e keys a1 = Return_ok a'" by simp
    from Cons.IH [OF this] k Cons.prems(2) p show ?thesis by auto
  qed
qed

lemma parse_opt_ok:
  assumes "parse_opt e keys = Return_ok a"
  shows "sub_page_size a = min_io_size a \<and> alignment a = 1
         \<and> (CHR ''x'' \<notin> fst ` set keys \<longrightarrow> ubi_ver a = 0)"
  using parse_opt_from_ok [of e keys args_init a] assms
  by (simp add: parse_opt_def args_init_def)

text \<open>An option whose case always returns \<^verbatim>\<open>-1\<close> makes the parser return \<^verbatim>\<open>-1\<close>,
  unless an option before it has left the loop already.\<close>

lemma parse_opt_from_failing:
  assumes "\<And>a. \<exists>d. parse_opt_case e k optarg a = Inl (Return_err d)"
  shows "(\<exists>d. parse_opt_from e (pre @ (k, optarg) # post) a = Return_err d) \<or>
         ((\<exists>d. parse_opt_from e (pre @ (k, optarg) # post) a = Exit_success d) \<and>
          (CHR ''h'' \<in> fst ` set pre \<or> CHR ''V'' \<in> fst ` set pre))"
proof (induction pre arbitrary: a)
  case Nil
  from assms [of a] show ?case by auto
next
  case (Cons p pre)
  obtain key arg where p: "p = (key, arg)" by (cases p)
  show ?case
  proof (cases "parse_opt_case e key arg a")
    case (Inl r)
    from parse_opt_case_Inl [OF Inl] Inl p show ?thesis by auto
  next
    case (Inr a1)
    from Cons.IH [of a1] Inr p show ?thesis by auto
  qed
qed

lemma main_not_parsed:
  "parse_opt e keys = Return_err d \<Longrightarrow>
     main e keys = ([Ubigen_init, Stderr d], Main_returns (- 1))"
  "parse_opt e keys = Exit_success d \<Longrightarrow>
     main e keys = ([Ubigen_init, Stderr d], Main_exits EXIT_SUCCESS)"
  by (simp_all add: main_def)

lemma main_failing_option:
  assumes "\<And>a. \<exists>d. parse_opt_case e k optarg a = Inl (Return_err d)"
  shows "(\<exists>d. parse_opt e (pre @ (k, optarg) # post) = Return_err d \<and>
              main e (pre @ (k, optarg) # post) = ([Ubigen_init, Stderr d], Main_returns (- 1)))
         \<or> ((CHR ''h'' \<in> fst ` set pre \<or> CHR ''V'' \<in> fst ` set pre) \<and>
             (\<exists>d. parse_opt e (pre @ (k, optarg) # post) = Exit_success d \<and>
                  main e (pre @ (k, optarg) # post) =
                    ([Ubigen_init, Stderr d], Main_exits EXIT_SUCCESS)))"
  using parse_opt_from_failing [OF assms, of pre post args_init] main_not_parsed
  unfolding parse_opt_def [symmetric] by blast

lemma parse_opt_ok_no_failing_option:
  assumes "parse_opt e keys = Return_ok a"
    and "\<And>a. \<exists>d. parse_opt_case e k optarg a = Inl (Return_err d)"
  shows "(k, optarg) \<notin> set keys"
proof
  assume "(k, optarg) \<in> set keys"
  then obtain pre post where "keys = pre @ (k, optarg) # post"
    by (auto dest: split_list)
  with parse_opt_from_failing [OF assms(2), of pre post args_init] assms(1)
  show False by (auto simp: parse_opt_def)
qed

text \<open>After a successful parse \<^verbatim>\<open>args.min_io_size\<close> is what the last \<^verbatim>\<open>-m\<close> option gave.\<close>

lemma parse_opt_case_m_Inr:
  assumes "parse_opt_case e (CHR ''m'') optarg a = Inr a1"
  shows "parse_size e Bad_min_io_size optarg = Inr (min_io_size a1)"
  using assms by (auto simp: parse_opt_case_m split: sum.splits)

lemma parse_opt_from_min_io:
  assumes "parse_opt_from e keys a = Return_ok a'"
  shows "0 \<le> sint (min_io_size a') \<and>
         ((CHR ''m'' \<notin> fst ` set keys \<and> min_io_size a' = min_io_size a) \<or>
          (\<exists>pre optarg post. keys = pre @ (CHR ''m'', optarg) # post \<and>
             CHR ''m'' \<notin> fst ` set post \<and>
             parse_size e Bad_min_io_size optarg = Inr (min_io_size a')))"
  using assms
proof (induction keys arbitrary: a)
  case Nil
  then show ?case using parse_opt_finish_ok [of a a'] by simp
next
  case (Cons p keys)
  obtain key optarg where p: "p = (key, optarg)" by (cases p)
  show ?case
  proof (cases "parse_opt_case e key optarg a")
    case (Inl r)
    with Cons.prems p have "r = Return_ok a'" by simp
    with parse_opt_case_Inl [OF Inl] show ?thesis by auto
  next
    case (Inr a1)
    from Cons.prems p Inr have rec: "parse_opt_from e keys a1 = Return_ok a'" by simp
    note ih = Cons.IH [OF rec]
    then have nonneg: "0 \<le> sint (min_io_size a')" by blast
    from ih consider
      (none) "CHR ''m'' \<notin> fst ` set keys" "min_io_size a' = min_io_size a1"
      | (some) pre optarg' post where "keys = pre @ (CHR ''m'', optarg') # post"
          "CHR ''m'' \<notin> fst ` set post"
          "parse_size e Bad_min_io_size optarg' = Inr (min_io_size a')"
      by blast
    then show ?thesis
    proof cases
      case none
      show ?thesis
      proof (cases "key = CHR ''m''")
        case True
        with Inr have "parse_size e Bad_min_io_size optarg = Inr (min_io_size a1)"
          by (simp add: parse_opt_case_m_Inr)
        with none True p have "p # keys = [] @ (CHR ''m'', optarg) # keys \<and>
            CHR ''m'' \<notin> fst ` set keys \<and>
            parse_size e Bad_min_io_size optarg = Inr (min_io_size a')" by simp
        with nonneg show ?thesis by blast
      next
        case False
        with parse_opt_case_keeps [OF Inr] have "min_io_size a1 = min_io_size a" by simp
        with none False p nonneg show ?thesis by simp
      qed
    next
      case some
      then have "p # keys = (p # pre) @ (CHR ''m'', optarg') # post" by simp
      with some nonneg show ?thesis by blast
    qed
  qed
qed

lemma parse_opt_min_io:
  assumes "parse_opt e keys = Return_ok a"
  shows "\<exists>pre optarg post. keys = pre @ (CHR ''m'', optarg) # post \<and>
           CHR ''m'' \<notin> fst ` set post \<and>
           parse_size e Bad_min_io_size optarg = Inr (min_io_size a)"
proof -
  from parse_opt_from_min_io [of e keys args_init a] assms
  have n: "0 \<le> sint (min_io_size a)"
    and d: "(CHR ''m'' \<notin> fst ` set keys \<and> min_io_size a = min_io_size args_init) \<or>
          (\<exists>pre optarg post. keys = pre @ (CHR ''m'', optarg) # post \<and>
             CHR ''m'' \<notin> fst ` set post \<and>
             parse_size e Bad_min_io_size optarg = Inr (min_io_size a))"
    by (simp_all add: parse_opt_def)
  have "min_io_size a \<noteq> min_io_size args_init"
    using n by (auto simp: args_init_def)
  with d show ?thesis by blast
qed

lemma getopt_evals:
  "getopt_long (Short (CHR ''s'') (Some optarg)) = (CHR ''s'', optarg)"
  "getopt_long (Long ''sub-page-size'' (Some optarg)) = (CHR ''s'', optarg)"
  "getopt_long (Short (CHR ''a'') (Some optarg)) = (CHR ''a'', optarg)"
  "getopt_long (Long ''alignment'' (Some optarg)) = (CHR ''a'', optarg)"
  "getopt_long (Short (CHR ''h'') None) = (CHR ''h'', [])"
  "getopt_long (Short (CHR ''V'') None) = (CHR ''V'', [])"
  "getopt_long (Short (CHR ''b'') (Some optarg)) = (CHR ''b'', optarg)"
  by (simp_all add: optstring_def long_lookup_def long_options_def)

section \<open>Claims about parse\_opt and main\<close>

text \<open>
  C6, as amended. A \<^verbatim>\<open>-b\<close> or \<^verbatim>\<open>-m\<close> option whose argument does not start with a number,
  or whose number is \<^verbatim>\<open><= 0\<close> in the \<^verbatim>\<open>int\<close> field it is stored in, never lets the
  parser succeed. \<open>parse_opt\<close> returns \<^verbatim>\<open>-1\<close> after a message and main returns \<^verbatim>\<open>-1\<close>
  having called nothing but \<^verbatim>\<open>ubigen_init\<close>; the one other outcome is that a \<^verbatim>\<open>-h\<close> or
  \<^verbatim>\<open>-V\<close> before the option has already ended the program with \<^verbatim>\<open>EXIT_SUCCESS\<close>. In
  both outcomes no session is created and nothing is written.
\<close>

theorem bad_size_option_rejected:
  assumes "k = CHR ''b'' \<or> k = CHR ''m''"
    and "snd (strtoull optarg) = 0 \<or> sint (to_int (fst (strtoull optarg))) \<le> 0"
  shows "(\<exists>d. parse_opt e (pre @ (k, optarg) # post) = Return_err d \<and>
              main e (pre @ (k, optarg) # post) = ([Ubigen_init, Stderr d], Main_returns (- 1)))
         \<or> ((CHR ''h'' \<in> fst ` set pre \<or> CHR ''V'' \<in> fst ` set pre) \<and>
             (\<exists>d. parse_opt e (pre @ (k, optarg) # post) = Exit_success d \<and>
                  main e (pre @ (k, optarg) # post) =
                    ([Ubigen_init, Stderr d], Main_exits EXIT_SUCCESS)))"
  by (rule main_failing_option) (rule parse_opt_case_bad_size [OF assms])

text \<open>\<^verbatim>\<open>ubigen -i in -b 0 -I 3\<close> returns \<^verbatim>\<open>-1\<close> with "bad physical eraseblock size".\<close>

theorem bad_size_option_rejected_witness:
  "sint (to_int (fst (strtoull ''0''))) \<le> 0 \<and>
   parse_opt env_fstat_fails ([(CHR ''i'', ''in'')] @ (CHR ''b'', ''0'') # [(CHR ''I'', ''3'')])
     = Return_err (Bad_peb_size ''0'') \<and>
   main env_fstat_fails ([(CHR ''i'', ''in'')] @ (CHR ''b'', ''0'') # [(CHR ''I'', ''3'')])
     = ([Ubigen_init, Stderr (Bad_peb_size ''0'')], Main_returns (- 1))"
proof -
  have h: "snd (strtoull ''0'') = 0 \<or> sint (to_int (fst (strtoull ''0''))) \<le> 0"
    by (simp add: strtoull_0 to_int_def)
  have k: "CHR ''b'' = CHR ''b'' \<or> CHR ''b'' = CHR ''m''" by simp
  show ?thesis
    using bad_size_option_rejected
      [OF k h, of env_fstat_fails "[(CHR ''i'', ''in'')]" "[(CHR ''I'', ''3'')]"]
    by (simp add: main_def parse_eval)
qed

text \<open>C6 as stated fails at \<^verbatim>\<open>ubigen -h -b 0\<close>: the size 0 is not positive, and the
  program prints the help text and exits with \<^verbatim>\<open>EXIT_SUCCESS\<close> instead of reporting an
  error and returning failure.\<close>

theorem bad_size_counterexample:
  "sint (to_int (fst (strtoull ''0''))) \<le> 0 \<and>
   main env_fstat_fails (map getopt_long [Short (CHR ''h'') None, Short (CHR ''b'') (Some ''0'')])
     = ([Ubigen_init, Stderr Help_text], Main_exits EXIT_SUCCESS)"
  by (simp only: list.map getopt_evals) (simp add: main_def parse_eval)

text \<open>
  C7, as amended. Whenever \<open>parse_opt\<close> succeeds, no \<^verbatim>\<open>-s\<close> option was given, the
  command line has a last \<^verbatim>\<open>-m\<close> option, and \<^verbatim>\<open>args.sub_page_size\<close> and
  \<^verbatim>\<open>args.min_io_size\<close> both hold the size that this option supplies; in particular
  \<^verbatim>\<open>sub_page_size <= min_io_size\<close> when main goes on to construct the session. Neither
  field is among the arguments of \<^verbatim>\<open>ubigen_create\<close>: the call is the same whatever the
  two fields hold, so the session itself gets no sub-page size.
\<close>

theorem sub_page_size_is_min_io_size:
  assumes "parse_opt e keys = Return_ok a"
  shows "CHR ''s'' \<notin> fst ` set keys \<and>
         (\<exists>pre optarg post. keys = pre @ (CHR ''m'', optarg) # post \<and>
            CHR ''m'' \<notin> fst ` set post \<and>
            parse_size e Bad_min_io_size optarg = Inr (min_io_size a)) \<and>
         sub_page_size a = min_io_size a \<and>
         sint (sub_page_size a) \<le> sint (min_io_size a) \<and>
         create_args (a\<lparr>min_io_size := x, sub_page_size := y\<rparr>) len = create_args a len"
proof -
  have "(CHR ''s'', optarg) \<notin> set keys" for optarg
    by (rule parse_opt_ok_no_failing_option [OF assms]) (simp add: parse_opt_case_s)
  then have "CHR ''s'' \<notin> fst ` set keys" by auto
  moreover have "create_args (a\<lparr>min_io_size := x, sub_page_size := y\<rparr>) len = create_args a len"
    by (simp add: create_args_def)
  ultimately show ?thesis
    using parse_opt_ok [OF assms] parse_opt_min_io [OF assms] by simp
qed

text \<open>\<^verbatim>\<open>ubigen -i in -b 131072 -m 2KiB -I 3\<close>: both fields are 2048, the size that
  \<^verbatim>\<open>-m 2KiB\<close> supplies.\<close>

theorem sub_page_size_is_min_io_size_witness:
  "parse_opt env_fstat_fails keys_ok = Return_ok args_ok \<and>
   CHR ''s'' \<notin> fst ` set keys_ok \<and>
   keys_ok = [(CHR ''i'', ''in''), (CHR ''b'', ''131072'')] @ (CHR ''m'', ''2KiB'') #
             [(CHR ''I'', ''3'')] \<and>
   parse_size env_fstat_fails Bad_min_io_size ''2KiB'' = Inr 2048 \<and>
   sub_page_size args_ok = 2048 \<and> min_io_size args_ok = 2048"
  using sub_page_size_is_min_io_size [OF parse_opt_keys_ok] parse_opt_keys_ok parse_size_2KiB
  by (simp add: args_ok_def keys_ok_def)

text \<open>C7 as stated, on the session, fails: \<^verbatim>\<open>-m 2KiB\<close> and \<^verbatim>\<open>-m 4KiB\<close> leave 2048 and 4096
  in \<^verbatim>\<open>args.sub_page_size\<close> and \<^verbatim>\<open>args.min_io_size\<close>, and main does the same in both runs,
  with the same arguments of \<^verbatim>\<open>ubigen_create\<close>: the session constructed cannot have a
  sub-page size equal to the minimum I/O size of both.\<close>

theorem session_sub_page_size_counterexample:
  "parse_opt env_fstat_fails keys_ok = Return_ok args_ok \<and>
   parse_opt env_fstat_fails keys_4k = Return_ok args_4k \<and>
   min_io_size args_ok = 2048 \<and> min_io_size args_4k = 4096 \<and>
   main env_fstat_fails keys_ok = main env_fstat_fails keys_4k"
proof -
  have "create_args args_ok 77 = create_args args_4k 77"
    by (simp add: create_args_def args_ok_def args_4k_def)
  then have "main env_fstat_fails keys_ok = main env_fstat_fails keys_4k"
    by (simp add: main_def parse_opt_keys_ok parse_opt_keys_4k Let_def)
      (simp add: env_fstat_fails_def fstat_fails_def rc_zero_def)
  then show ?thesis
    using parse_opt_keys_ok parse_opt_keys_4k by (simp add: args_ok_def args_4k_def)
qed

text \<open>
  C8, as amended. \<^verbatim>\<open>-s\<close>, \<^verbatim>\<open>--sub-page-size\<close>, \<^verbatim>\<open>-a\<close> and \<^verbatim>\<open>--alignment\<close> are in the
  optstring and the option table, so \<^verbatim>\<open>getopt_long\<close> returns \<^verbatim>\<open>'s'\<close> and \<^verbatim>\<open>'a'\<close> for them;
  the switch has no case for either key, so its default case prints "Use -h for help"
  and returns \<^verbatim>\<open>-1\<close>. A command line with such an option makes main return \<^verbatim>\<open>-1\<close> before
  any session is created, unless a \<^verbatim>\<open>-h\<close> or \<^verbatim>\<open>-V\<close> before the option has already ended
  the program with \<^verbatim>\<open>EXIT_SUCCESS\<close>. Every successful parse has
  \<^verbatim>\<open>sub_page_size = min_io_size\<close> and \<^verbatim>\<open>alignment = 1\<close>.
\<close>

theorem unhandled_options_rejected:
  assumes "k = CHR ''s'' \<or> k = CHR ''a''"
  shows "getopt_long (Short (CHR ''s'') (Some optarg)) = (CHR ''s'', optarg) \<and>
         getopt_long (Long ''sub-page-size'' (Some optarg)) = (CHR ''s'', optarg) \<and>
         getopt_long (Short (CHR ''a'') (Some optarg)) = (CHR ''a'', optarg) \<and>
         getopt_long (Long ''alignment'' (Some optarg)) = (CHR ''a'', optarg) \<and>
         parse_opt_case e k optarg a = Inl (Return_err Use_h_for_help) \<and>
         ((\<exists>d. parse_opt e (pre @ (k, optarg) # post) = Return_err d \<and>
               main e (pre @ (k, optarg) # post) = ([Ubigen_init, Stderr d], Main_returns (- 1)))
          \<or> ((CHR ''h'' \<in> fst ` set pre \<or> CHR ''V'' \<in> fst ` set pre) \<and>
              (\<exists>d. parse_opt e (pre @ (k, optarg) # post) = Exit_success d \<and>
                   main e (pre @ (k, optarg) # post) =
                     ([Ubigen_init, Stderr d], Main_exits EXIT_SUCCESS)))) \<and>
         (\<forall>keys a'. parse_opt e keys = Return_ok a' \<longrightarrow>
            sub_page_size a' = min_io_size a' \<and> alignment a' = 1)"
proof -
  have c: "parse_opt_case e k optarg a = Inl (Return_err Use_h_for_help)" for a
    using assms parse_opt_case_s parse_opt_case_a by blast
  then have "\<And>a. \<exists>d. parse_opt_case e k optarg a = Inl (Return_err d)" by blast
  from main_failing_option [OF this, of pre post] c [of a] parse_opt_ok [of e]
    getopt_evals(1-4) [of optarg]
  show ?thesis by blast
qed

text \<open>\<^verbatim>\<open>ubigen -b 131072 --alignment=4\<close> returns \<^verbatim>\<open>-1\<close> with "Use -h for help".\<close>

theorem unhandled_options_rejected_witness:
  "main env_fstat_fails
     (map getopt_long [Short (CHR ''b'') (Some ''131072''), Long ''alignment'' (Some ''4'')])
     = ([Ubigen_init, Stderr Use_h_for_help], Main_returns (- 1)) \<and>
   parse_opt env_fstat_fails keys_ok = Return_ok args_ok \<and>
   sub_page_size args_ok = min_io_size args_ok \<and> alignment args_ok = 1"
proof -
  have k: "CHR ''a'' = CHR ''s'' \<or> CHR ''a'' = CHR ''a''" by simp
  show ?thesis
    using unhandled_options_rejected [OF k, of "''4''" env_fstat_fails args_init
        "[(CHR ''b'', ''131072'')]" "[]"] parse_opt_keys_ok
    by (simp only: list.map getopt_evals) (simp add: main_def parse_eval args_ok_def)
qed

text \<open>C8 as stated fails at \<^verbatim>\<open>ubigen -V --sub-page-size=512\<close>: the program prints its
  version and exits with \<^verbatim>\<open>EXIT_SUCCESS\<close>, not with an error.\<close>

theorem unhandled_option_counterexample:
  "main env_fstat_fails
     (map getopt_long [Short (CHR ''V'') None, Long ''sub-page-size'' (Some ''512'')])
     = ([Ubigen_init, Stderr Version_text], Main_exits EXIT_SUCCESS)"
  by (simp only: list.map getopt_evals) (simp add: main_def parse_eval)

text \<open>
  C9. When \<^verbatim>\<open>fstat\<close> on the input file fails, main prints "Cannot fetch file size from
  input file." and goes on: its next step is the call of \<^verbatim>\<open>ubigen_create\<close>, whose input
  length is whatever \<^verbatim>\<open>st_size\<close> held in the \<^verbatim>\<open>struct stat\<close> that nothing was stored in.
\<close>

theorem fstat_failure_ignored:
  assumes "parse_opt e keys = Return_ok a" and "fstat_st_size e (fp_in a) = None"
  shows "take 3 (fst (main e keys)) =
           [Ubigen_init, Stderr Cannot_fetch_file_size,
            Ubigen_create (create_args a (uninit_st_size e))] \<and>
         c_data_size (create_args a (uninit_st_size e)) = uninit_st_size e"
  using assms by (simp add: main_def Let_def create_args_def)

theorem fstat_failure_ignored_witness:
  "parse_opt env_fstat_fails keys_ok = Return_ok args_ok \<and>
   fstat_st_size env_fstat_fails (fp_in args_ok) = None \<and>
   take 3 (fst (main env_fstat_fails keys_ok)) =
     [Ubigen_init, Stderr Cannot_fetch_file_size, Ubigen_create (create_args args_ok 77)]"
proof -
  have f: "fstat_st_size env_fstat_fails (fp_in args_ok) = None"
    by (simp add: env_fstat_fails_def fstat_fails_def)
  show ?thesis
    using fstat_failure_ignored [OF parse_opt_keys_ok f] parse_opt_keys_ok f
    by (simp add: env_fstat_fails_def)
qed

text \<open>
  C10. Without a \<^verbatim>\<open>-x\<close> option a successful parse leaves \<^verbatim>\<open>args.ubi_ver\<close> at its
  initial value 0, main calls \<^verbatim>\<open>ubigen_create\<close>, and every call of \<^verbatim>\<open>ubigen_create\<close> it
  makes passes version 0; the help text of the \<^verbatim>\<open>-x\<close> option says "(default is 1)".
\<close>

theorem ubi_ver_default_is_zero:
  assumes "CHR ''x'' \<notin> fst ` set keys" and "parse_opt e keys = Return_ok a"
  shows "ubi_ver a = 0 \<and>
         (\<exists>len. Ubigen_create (create_args a len) \<in> set (fst (main e keys))) \<and>
         (\<forall>u. Ubigen_create u \<in> set (fst (main e keys)) \<longrightarrow> c_version u = 0) \<and>
         optionsstr ! 21 =
           ''-x, --ubi-ver=<num>            UBI version number to put to EC headers'' \<and>
         optionsstr ! 22 = ''                              (default is 1)''"
proof -
  from parse_opt_ok [OF assms(2)] assms(1) have v: "ubi_ver a = 0" by simp
  have o: "optionsstr ! 21 =
      ''-x, --ubi-ver=<num>            UBI version number to put to EC headers''"
    "optionsstr ! 22 = ''                              (default is 1)''"
    by (simp_all add: optionsstr_def)
  from assms(2)
  have "\<exists>len. Ubigen_create (create_args a len) \<in> set (fst (main e keys))"
    by (auto simp: main_def Let_def)
  moreover from assms(2) v
  have "\<forall>u. Ubigen_create u \<in> set (fst (main e keys)) \<longrightarrow> c_version u = 0"
    by (auto simp: main_def Let_def create_args_def split: option.splits)
  ultimately show ?thesis using v o by blast
qed

theorem ubi_ver_default_is_zero_witness:
  "CHR ''x'' \<notin> fst ` set keys_ok \<and>
   parse_opt env_fstat_fails keys_ok = Return_ok args_ok \<and>
   ubi_ver args_ok = 0 \<and>
   Ubigen_create (create_args args_ok 77) \<in> set (fst (main env_fstat_fails keys_ok)) \<and>
   c_version (create_args args_ok 77) = 0"
proof -
  have x: "CHR ''x'' \<notin> fst ` set keys_ok" by (simp add: keys_ok_def)
  have m: "Ubigen_create (create_args args_ok 77) \<in> set (fst (main env_fstat_fails keys_ok))"
    by (simp add: main_def parse_opt_keys_ok Let_def)
      (simp add: env_fstat_fails_def fstat_fails_def rc_zero_def)
  show ?thesis
    using ubi_ver_default_is_zero [OF x parse_opt_keys_ok] x m parse_opt_keys_ok
    by (simp add: create_args_def)
qed

section \<open>Properties of the image builder\<close>

text \<open>The check value of the standard CRC-32: the ASCII digits \<^verbatim>\<open>123456789\<close> have the
  checksum \<^verbatim>\<open>0xCBF43926\<close>.\<close>

lemma crc32_check_value:
  "crc32 [0x31, 0x32, 0x33, 0x34, 0x35, 0x36, 0x37, 0x38, 0x39] = 0xCBF43926"
  by code_simp











lemma write_loop_end:
  "take (read_size s) inp = [] \<Longrightarrow> write_loop s st inp = (end_of_input s st, [])"
  by (subst write_loop.simps) simp

lemma write_loop_step:
  assumes "take (read_size s) inp \<noteq> []"
  shows "write_loop s st inp =
           (fst (write_loop s (advance st (take (read_size s) inp))
                   (drop (length (take (read_size s) inp)) inp)),
            build_peb s st (take (read_size s) inp) #
            snd (write_loop s (advance st (take (read_size s) inp))
                   (drop (length (take (read_size s) inp)) inp)))"
  using assms by (subst write_loop.simps) (simp add: Let_def split: prod.splits)

lemma write_loop_cases [case_names stop step]:
  assumes "take (read_size s) inp = [] \<Longrightarrow> P (end_of_input s st, [])"
    and "\<And>c. c = take (read_size s) inp \<Longrightarrow> c \<noteq> [] \<Longrightarrow>
           P (fst (write_loop s (advance st c) (drop (length c) inp)),
              build_peb s st c # snd (write_loop s (advance st c) (drop (length c) inp)))"
  shows "P (write_loop s st inp)"
proof (cases "take (read_size s) inp = []")
  case True
  with assms(1) show ?thesis by (simp add: write_loop_end)
next
  case False
  with assms(2) [OF refl False] show ?thesis by (simp add: write_loop_step)
qed

lemma read_size_le: "read_size s \<le> s_leb_size s"
  by (simp add: read_size_def)

lemma write_loop_payload:
  "b \<in> set (snd (write_loop s st inp)) \<Longrightarrow>
     blk_payload b \<noteq> [] \<and> length (blk_payload b) \<le> s_leb_size s"
proof (induction s st inp rule: write_loop.induct)
  case (1 s st inp)
  show ?case
  proof (cases "take (read_size s) inp = []")
    case True
    with "1.prems" show ?thesis by (simp add: write_loop_end)
  next
    case False
    let ?c = "take (read_size s) inp"
    from "1.prems" False
    have "b = build_peb s st ?c \<or>
          b \<in> set (snd (write_loop s (advance st ?c) (drop (length ?c) inp)))"
      by (simp add: write_loop_step)
    then show ?thesis
    proof
      assume "b = build_peb s st ?c"
      with False read_size_le [of s] show ?thesis
        by (simp add: build_peb_def)
    next
      assume "b \<in> set (snd (write_loop s (advance st ?c) (drop (length ?c) inp)))"
      with "1.IH" [OF refl False] show ?thesis by simp
    qed
  qed
qed

lemma upt_shift: "[i ..< i + Suc n] = i # [Suc i ..< Suc i + n]"
  by (subst upt_rec) simp

lemma write_loop_counters:
  "map (vid_lnum \<circ> blk_vid) (snd (write_loop s st inp)) =
     [lnum st ..< lnum st + length (snd (write_loop s st inp))] \<and>
   map (vid_sqnum \<circ> blk_vid) (snd (write_loop s st inp)) =
     [sqnum st ..< sqnum st + length (snd (write_loop s st inp))]"
proof (induction s st inp rule: write_loop.induct)
  case (1 s st inp)
  show ?case
  proof (cases "take (read_size s) inp = []")
    case True
    then show ?thesis by (simp add: write_loop_end)
  next
    case False
    define c where "c = take (read_size s) inp"
    define rest where "rest = snd (write_loop s (advance st c) (drop (length c) inp))"
    have w: "snd (write_loop s st inp) = build_peb s st c # rest"
      using False by (simp add: write_loop_step c_def rest_def)
    have h: "vid_lnum (blk_vid (build_peb s st c)) = lnum st"
      "vid_sqnum (blk_vid (build_peb s st c)) = sqnum st"
      "lnum (advance st c) = Suc (lnum st)" "sqnum (advance st c) = Suc (sqnum st)"
      by (simp_all add: build_peb_def build_vid_header_def advance_def)
    from "1.IH" [OF refl False]
    have ih: "map (vid_lnum \<circ> blk_vid) rest = [Suc (lnum st) ..< Suc (lnum st) + length rest]"
      "map (vid_sqnum \<circ> blk_vid) rest = [Suc (sqnum st) ..< Suc (sqnum st) + length rest]"
      unfolding c_def [symmetric] rest_def [symmetric] h by blast+
    have "map (vid_lnum \<circ> blk_vid) (build_peb s st c # rest) =
            [lnum st ..< lnum st + length (build_peb s st c # rest)]"
      using ih(1) h(1) upt_shift [of "lnum st" "length rest"] by simp
    moreover have "map (vid_sqnum \<circ> blk_vid) (build_peb s st c # rest) =
            [sqnum st ..< sqnum st + length (build_peb s st c # rest)]"
      using ih(2) h(2) upt_shift [of "sqnum st" "length rest"] by simp
    ultimately show ?thesis unfolding w by blast
  qed
qed

lemma align_up_double:
  assumes "0 < (a::int)"
  shows "align_up (a * 2) a = a * 2"
proof -
  have "(a * 2 + a - 1) div a = 2"
    by (rule int_div_pos_eq [where r = "a - 1"]) (use assms in simp_all)
  then show ?thesis by (simp add: align_up_def)
qed

lemma create_session_Inr:
  assumes "create_session g p = Inr s"
  shows "s_params s = p \<and>
         s_vid_hdr_offset s + VID_HDR_SIZE + s_leb_size s = s_peb_size s \<and>
         0 < s_leb_size s \<and> int (s_peb_size s) = geo_peb_size g"
proof -
  define sub where
    "sub = (case geo_sub_page_size g of None \<Rightarrow> geo_min_io_size g | Some x \<Rightarrow> x)"
  define vho where
    "vho = (if geo_vid_hdr_offset g = 0 then align_up (sub * 2) sub else geo_vid_hdr_offset g)"
  from assms have ok: "0 < sub" "0 \<le> geo_vid_hdr_offset g"
    by (auto simp: create_session_def Let_def sub_def split: if_splits)
  then have "0 \<le> vho"
    by (simp add: vho_def align_up_double)
  with assms show ?thesis
    unfolding create_session_def Let_def sub_def [symmetric] vho_def [symmetric]
    by (auto simp: VID_HDR_SIZE_def split: if_splits)
qed

lemma write_loop_Nil: "write_loop s st [] = (end_of_input s st, [])"
  by (simp add: write_loop_end)

lemma take_append_drop_length: "take k xs @ drop (length (take k xs)) xs = xs"
  by (cases "k \<le> length xs") (simp_all add: min_def)

lemma write_loop_short:
  assumes "vol_type (s_params s) = Static" and "0 < s_leb_size s"
    and "emitted st + length inp < declared_data_length (s_params s)"
  shows "fst (write_loop s st inp) = Failed (Input_contract_error (emitted st + length inp)) \<and>
         concat (map blk_payload (snd (write_loop s st inp))) = inp"
  using assms
proof (induction s st inp rule: write_loop.induct)
  case (1 s st inp)
  have pos: "0 < read_size s"
    using "1.prems" by (simp add: read_size_def)
  show ?case
  proof (cases "take (read_size s) inp = []")
    case True
    with pos have "inp = []" by (cases inp) auto
    with "1.prems" show ?thesis
      by (simp add: write_loop_Nil end_of_input_def)
  next
    case False
    define c where "c = take (read_size s) inp"
    define rest where "rest = drop (length c) inp"
    have split: "c @ rest = inp"
      unfolding c_def rest_def by (rule take_append_drop_length)
    then have len: "length c + length rest = length inp"
      by (metis length_append)
    have w: "write_loop s st inp =
               (fst (write_loop s (advance st c) rest),
                build_peb s st c # snd (write_loop s (advance st c) rest))"
      using False by (simp add: write_loop_step c_def rest_def)
    have e: "emitted (advance st c) + length rest = emitted st + length inp"
      using len by (simp add: advance_def)
    from "1.IH" [OF refl False "1.prems"(1,2)] "1.prems"(3) e
    have ih: "fst (write_loop s (advance st c) rest) =
                Failed (Input_contract_error (emitted st + length inp))"
      "concat (map blk_payload (snd (write_loop s (advance st c) rest))) = rest"
      unfolding c_def [symmetric] rest_def [symmetric] by simp_all
    show ?thesis
      unfolding w using ih split by (simp add: build_peb_def)
  qed
qed




lemma create_session_small:
  "create_session geo_small params_dynamic = Inr (session_small params_dynamic)"
  "create_session geo_small params_static = Inr (session_small params_static)"
  by (simp_all add: create_session_def geo_small_def session_small_def Let_def
      EC_HDR_SIZE_def VID_HDR_SIZE_def)

lemmas write_eval =
  write_complete_def init_state_def write_loop.simps Let_def read_size_def end_of_input_def
  is_final_def build_peb_def build_vid_header_def advance_def session_small_def
  params_dynamic_def params_static_def peb_small_def input6_def input5_def input9_def



lemma write_complete_static_short:
  "write_complete (session_small params_static) input5 =
     (Failed (Input_contract_error 5),
      [peb_small params_static 0 0 0 [1, 2, 3, 4], peb_small params_static 1 0 0 [5]])"
  by (simp add: write_eval)












text \<open>The example of section 8 of the specification: \<open>leb_size = 65536 - 4096 - VID_HDR_SIZE\<close>.\<close>

lemma create_session_spec_example:
  "create_session
     \<lparr> geo_peb_size = 65536, geo_min_io_size = 2048, geo_sub_page_size = None,
       geo_vid_hdr_offset = 0, geo_alignment = 1 \<rparr> params_dynamic =
   Inr \<lparr> s_peb_size = 65536, s_vid_hdr_offset = 4096, s_leb_size = 65536 - 4096 - VID_HDR_SIZE,
         s_data_pad = 0, s_params = params_dynamic \<rparr>"
  by (simp add: create_session_def Let_def align_up_def EC_HDR_SIZE_def VID_HDR_SIZE_def)

section \<open>Claims about the image builder\<close>




text \<open>
  C2. In the blocks that one complete-volume write emits, the \<open>lnum\<close> values of the VID
  headers are 0, 1, 2, ... in this order, one per block, and so are the \<open>sqnum\<close>
  values: both start at 0 and grow by exactly 1 from each block to the next.
\<close>

theorem lnum_sqnum_sequence:
  "map (vid_lnum \<circ> blk_vid) (snd (write_complete s inp)) =
     [0 ..< length (snd (write_complete s inp))] \<and>
   map (vid_sqnum \<circ> blk_vid) (snd (write_complete s inp)) =
     [0 ..< length (snd (write_complete s inp))]"
  using write_loop_counters [of s init_state inp]
  by (simp add: write_complete_def init_state_def)

text \<open>
  C3. A Static volume whose input has fewer bytes than \<open>declared_data_length\<close> fails
  with the input-contract error that carries the number of bytes consumed, the length
  of the input. The blocks emitted are those that carry these bytes, each with a
  payload that is not empty: no block follows the read that found the input short.
\<close>

theorem static_short_input_fails:
  assumes "create_session g p = Inr s" and "vol_type p = Static"
    and "length inp < declared_data_length p"
  shows "fst (write_complete s inp) = Failed (Input_contract_error (length inp)) \<and>
         concat (map blk_payload (snd (write_complete s inp))) = inp \<and>
         (\<forall>b \<in> set (snd (write_complete s inp)). blk_payload b \<noteq> [])"
proof -
  note cs = create_session_Inr [OF assms(1)]
  have "fst (write_loop s init_state inp) =
          Failed (Input_contract_error (emitted init_state + length inp)) \<and>
        concat (map blk_payload (snd (write_loop s init_state inp))) = inp"
    by (rule write_loop_short) (use cs assms in \<open>simp_all add: init_state_def\<close>)
  moreover have "\<forall>b \<in> set (snd (write_loop s init_state inp)). blk_payload b \<noteq> []"
    using write_loop_payload by blast
  ultimately show ?thesis by (simp add: write_complete_def init_state_def)
qed

theorem static_short_input_fails_witness:
  "create_session geo_small params_static = Inr (session_small params_static) \<and>
   vol_type params_static = Static \<and>
   length input5 < declared_data_length params_static \<and>
   write_complete (session_small params_static) input5 =
     (Failed (Input_contract_error 5),
      [peb_small params_static 0 0 0 [1, 2, 3, 4], peb_small params_static 1 0 0 [5]]) \<and>
   blk_payload (peb_small params_static 1 0 0 [5]) \<noteq> []"
proof -
  have t: "vol_type params_static = Static" by (simp add: params_static_def)
  have l: "length input5 < declared_data_length params_static"
    by (simp add: params_static_def input5_def)
  show ?thesis
    using static_short_input_fails [OF create_session_small(2) t l] create_session_small(2) t l
    by (simp add: write_complete_static_short peb_small_def)
qed






end
